theory Spec2Isabelle
  imports Complex_Main "HOL-Library.Sublist"
begin

section \<open>JavaScript values\<close>

text \<open>
  The constructor of \<^verbatim>\<open>_Options\<close> is compiled TypeScript: at run time its three
  parameters hold arbitrary JavaScript values, and the two checks it makes
  (\<^verbatim>\<open>!x\<close> and \<^verbatim>\<open>typeof x\<close>) are defined on all of them. The values are therefore
  modelled in full: the seven primitive kinds, functions, arrays and plain objects.
  A string is a list of characters; the constructor only tests it for emptiness and
  compares its first four code units with \<^verbatim>\<open>http\<close>.
\<close>

text \<open>
  A Number is an IEEE-754 double. Every finite double is a rational; the two zeros,
  the two infinities and NaN are kept apart because truthiness tells them apart.
\<close>

datatype js_number = NaN | PosInfinity | NegInfinity | NegZero | Finite rat

datatype jsval =
    JUndefined
  | JNull
  | JBoolean bool
  | JNumber js_number
  | JBigInt int
  | JString string
  | JSymbol string
  | JFunction string
  | JArray "jsval list"
  | JObject "(string \<times> jsval) list"

text \<open>\<^verbatim>\<open>ToBoolean\<close> of ECMAScript: what \<^verbatim>\<open>!x\<close> negates.\<close>

fun number_truthy :: "js_number \<Rightarrow> bool" where
  "number_truthy NaN = False"
| "number_truthy NegZero = False"
| "number_truthy PosInfinity = True"
| "number_truthy NegInfinity = True"
| "number_truthy (Finite q) = (q \<noteq> 0)"

fun ToBoolean :: "jsval \<Rightarrow> bool" where
  "ToBoolean JUndefined = False"
| "ToBoolean JNull = False"
| "ToBoolean (JBoolean b) = b"
| "ToBoolean (JNumber n) = number_truthy n"
| "ToBoolean (JBigInt i) = (i \<noteq> 0)"
| "ToBoolean (JString s) = (s \<noteq> [])"
| "ToBoolean (JSymbol d) = True"
| "ToBoolean (JFunction f) = True"
| "ToBoolean (JArray xs) = True"
| "ToBoolean (JObject ps) = True"

text \<open>The \<^verbatim>\<open>typeof\<close> operator. Note \<^verbatim>\<open>typeof null === 'object'\<close>.\<close>

fun typeof :: "jsval \<Rightarrow> string" where
  "typeof JUndefined = ''undefined''"
| "typeof JNull = ''object''"
| "typeof (JBoolean b) = ''boolean''"
| "typeof (JNumber n) = ''number''"
| "typeof (JBigInt i) = ''bigint''"
| "typeof (JString s) = ''string''"
| "typeof (JSymbol d) = ''symbol''"
| "typeof (JFunction f) = ''function''"
| "typeof (JArray xs) = ''object''"
| "typeof (JObject ps) = ''object''"

text \<open>
  \<^verbatim>\<open>String.prototype.startsWith(searchString)\<close> at position 0: the first
  \<open>length searchString\<close> code units of the receiver are compared with the search string.
\<close>

definition startsWith :: "string \<Rightarrow> string \<Rightarrow> bool" where
  "startsWith s searchString = (take (length searchString) s = searchString)"

text \<open>
  What the constructor can throw. \<^verbatim>\<open>Error\<close> carries its message. \<^verbatim>\<open>TypeError\<close> is what
  the method call \<^verbatim>\<open>baseUrl.startsWith(...)\<close> raises on a receiver that has no such
  method (its engine-specific message is not modelled).
\<close>

datatype js_error = Error string | TypeError

text \<open>The method call \<^verbatim>\<open>v.startsWith(searchString)\<close> on an arbitrary value.\<close>

fun call_startsWith :: "jsval \<Rightarrow> string \<Rightarrow> js_error + bool" where
  "call_startsWith (JString s) searchString = Inr (startsWith s searchString)"
| "call_startsWith v searchString = Inl TypeError"

section \<open>The options model\<close>

text \<open>
  The four declared fields of \<^verbatim>\<open>_Options\<close>. Reading a field that was never assigned
  yields \<^verbatim>\<open>undefined\<close>, so every field holds a value.
\<close>

record Options =
  enabled :: jsval
  environment :: jsval
  operator :: jsval
  baseUrl :: jsval

text \<open>The object \<^verbatim>\<open>new\<close> allocates before the constructor body runs.\<close>

definition fresh_instance :: Options where
  "fresh_instance =
     \<lparr>enabled = JUndefined, environment = JUndefined, operator = JUndefined, baseUrl = JUndefined\<rparr>"

text \<open>
  The constructor body, statement by statement, on the instance \<open>this\<close>. It returns the
  instance as the body left it together with the exception thrown, if any. The
  \<^verbatim>\<open>||\<close> chains short-circuit, so each is a cascade of tests.
  \<^verbatim>\<open>
    constructor(environment, operator, baseUrl) {
        this.environment = environment
        if (!operator || typeof operator !== 'object') {
            throw new Error('Invalid operator information')
        }
        this.operator = operator
        if (!baseUrl || typeof baseUrl !== 'string' || !baseUrl.startsWith('http')) {
            throw new Error('Invalid base URL')
        }
        this.baseUrl = baseUrl
    }
  \<close>
\<close>

definition Options_constructor ::
  "Options \<Rightarrow> jsval \<Rightarrow> jsval \<Rightarrow> jsval \<Rightarrow> Options \<times> js_error option" where
  "Options_constructor this environment' operator' baseUrl' =
     (let this1 = this\<lparr>environment := environment'\<rparr> in
      if (if ToBoolean operator' then typeof operator' = ''object'' else False) then
        (let this2 = this1\<lparr>operator := operator'\<rparr> in
         if (if ToBoolean baseUrl' then typeof baseUrl' = ''string'' else False) then
           (case call_startsWith baseUrl' ''http'' of
              Inl e \<Rightarrow> (this2, Some e)
            | Inr True \<Rightarrow> (this2\<lparr>baseUrl := baseUrl'\<rparr>, None)
            | Inr False \<Rightarrow> (this2, Some (Error ''Invalid base URL'')))
         else (this2, Some (Error ''Invalid base URL'')))
      else (this1, Some (Error ''Invalid operator information'')))"

text \<open>
  The expression \<^verbatim>\<open>new _Options(environment, operator, baseUrl)\<close>: the caller receives
  the instance when the body completes, and only the exception when it throws.
\<close>

definition new_Options :: "jsval \<Rightarrow> jsval \<Rightarrow> jsval \<Rightarrow> js_error + Options" where
  "new_Options environment' operator' baseUrl' =
     (case Options_constructor fresh_instance environment' operator' baseUrl' of
        (this', None) \<Rightarrow> Inr this'
      | (this', Some e) \<Rightarrow> Inl e)"

text \<open>The two error conditions, as the constructor throws them.\<close>

definition InvalidOperator :: js_error where
  "InvalidOperator = Error ''Invalid operator information''"

definition InvalidBaseUrl :: js_error where
  "InvalidBaseUrl = Error ''Invalid base URL''"

text \<open>
  The structural contract \<^verbatim>\<open>_IOptions\<close> declares four required fields:
  \<^verbatim>\<open>enabled: boolean\<close>, \<^verbatim>\<open>environment: LedgerId\<close>, \<^verbatim>\<open>operator: IHashgraph.IOperator\<close> and
  \<^verbatim>\<open>baseUrl: string\<close>. \<^verbatim>\<open>LedgerId\<close> and \<^verbatim>\<open>IOperator\<close> are declared in other packages
  (\<^verbatim>\<open>@hashgraph/sdk\<close>, \<^verbatim>\<open>@hsuite/hashgraph-types\<close>), so membership in them is a parameter.
\<close>

definition conforms_IOptions :: "(jsval \<Rightarrow> bool) \<Rightarrow> (jsval \<Rightarrow> bool) \<Rightarrow> Options \<Rightarrow> bool" where
  "conforms_IOptions is_LedgerId is_IOperator opts =
     (typeof (enabled opts) = ''boolean'' \<and> is_LedgerId (environment opts) \<and>
      is_IOperator (operator opts) \<and> typeof (baseUrl opts) = ''string'')"

subsection \<open>Values used in the concrete instances\<close>

text \<open>
  \<^verbatim>\<open>LedgerId.TESTNET\<close> is an object of \<^verbatim>\<open>@hashgraph/sdk\<close>; the constructor never looks
  inside it. The stand-in below only serves the concrete instances: every general
  statement quantifies over the environment.
\<close>

definition TESTNET :: jsval where
  "TESTNET = JObject [(''_ledgerId'', JArray [JNumber (Finite 1)])]"

text \<open>The operator of the documentation's examples.\<close>

definition example_operator :: jsval where
  "example_operator =
     JObject [(''accountId'', JString ''0.0.123456''),
              (''privateKey'', JString ''302e020100300506032b657004220420...'')]"

section \<open>How the constructor decides\<close>

lemma startsWith_prefix: "startsWith s p = prefix p s"
  unfolding startsWith_def
  by (metis append_eq_conv_conj prefix_def take_is_prefix)

text \<open>The operator test passes exactly on arrays and plain objects.\<close>

lemma operator_check_iff:
  "(if ToBoolean v then typeof v = ''object'' else False) = (v \<noteq> JNull \<and> typeof v = ''object'')"
  by (cases v) simp_all

lemma baseUrl_check_iff:
  "(if ToBoolean v then typeof v = ''string'' else False) = (\<exists>s. v = JString s \<and> s \<noteq> [])"
  by (cases v) simp_all

lemma Options_constructor_rejects_operator:
  assumes "operator' = JNull \<or> typeof operator' \<noteq> ''object''"
  shows "Options_constructor this environment' operator' baseUrl' =
           (this\<lparr>environment := environment'\<rparr>, Some (Error ''Invalid operator information''))"
  using assms unfolding Options_constructor_def operator_check_iff by (auto simp: Let_def)

lemma Options_constructor_rejects_baseUrl:
  assumes "operator' \<noteq> JNull" and "typeof operator' = ''object''"
    and "\<not> (\<exists>s. baseUrl' = JString s \<and> s \<noteq> [] \<and> prefix ''http'' s)"
  shows "Options_constructor this environment' operator' baseUrl' =
           (this\<lparr>environment := environment', operator := operator'\<rparr>,
            Some (Error ''Invalid base URL''))"
proof (cases "\<exists>s. baseUrl' = JString s \<and> s \<noteq> []")
  case True
  then obtain s where s: "baseUrl' = JString s" "s \<noteq> []" by blast
  with assms(3) have "\<not> startsWith s ''http''" by (simp add: startsWith_prefix)
  with s assms(1,2) show ?thesis
    unfolding Options_constructor_def operator_check_iff by (simp add: Let_def)
next
  case False
  then have "\<not> (if ToBoolean baseUrl' then typeof baseUrl' = ''string'' else False)"
    by (simp only: baseUrl_check_iff not_False_eq_True)
  with assms(1,2) show ?thesis
    unfolding Options_constructor_def operator_check_iff by (simp add: Let_def)
qed

lemma Options_constructor_accepts:
  assumes "operator' \<noteq> JNull" and "typeof operator' = ''object''"
    and "s \<noteq> []" and "prefix ''http'' s"
  shows "Options_constructor this environment' operator' (JString s) =
           (this\<lparr>environment := environment', operator := operator', baseUrl := JString s\<rparr>, None)"
  using assms unfolding Options_constructor_def operator_check_iff
  by (simp add: Let_def startsWith_prefix)

text \<open>The same three cases, as the caller of \<^verbatim>\<open>new\<close> sees them.\<close>

lemma new_Options_rejects_operator:
  assumes "operator' = JNull \<or> typeof operator' \<noteq> ''object''"
  shows "new_Options environment' operator' baseUrl' = Inl (Error ''Invalid operator information'')"
  unfolding new_Options_def Options_constructor_rejects_operator [OF assms] by simp

lemma new_Options_rejects_baseUrl:
  assumes "operator' \<noteq> JNull" and "typeof operator' = ''object''"
    and "\<not> (\<exists>s. baseUrl' = JString s \<and> s \<noteq> [] \<and> prefix ''http'' s)"
  shows "new_Options environment' operator' baseUrl' = Inl (Error ''Invalid base URL'')"
  unfolding new_Options_def Options_constructor_rejects_baseUrl [OF assms] by simp

lemma new_Options_accepts:
  assumes "operator' \<noteq> JNull" and "typeof operator' = ''object''"
    and "s \<noteq> []" and "prefix ''http'' s"
  shows "new_Options environment' operator' (JString s) =
           Inr \<lparr>enabled = JUndefined, environment = environment', operator = operator',
                baseUrl = JString s\<rparr>"
  unfolding new_Options_def Options_constructor_accepts [OF assms] by (simp add: fresh_instance_def)

text \<open>The two error conditions have different messages.\<close>

lemma error_conditions_distinct: "InvalidOperator \<noteq> InvalidBaseUrl"
  by (simp add: InvalidOperator_def InvalidBaseUrl_def)

text \<open>Construction succeeds on exactly one kind of input, with exactly one result.\<close>

lemma new_Options_success_iff:
  "(new_Options environment' operator' baseUrl' = Inr inst) =
     (operator' \<noteq> JNull \<and> typeof operator' = ''object'' \<and>
      (\<exists>s. baseUrl' = JString s \<and> s \<noteq> [] \<and> prefix ''http'' s) \<and>
      inst = \<lparr>enabled = JUndefined, environment = environment', operator = operator',
              baseUrl = baseUrl'\<rparr>)"
proof (cases "operator' = JNull \<or> typeof operator' \<noteq> ''object''")
  case True
  then show ?thesis by (auto simp: new_Options_rejects_operator [OF True])
next
  case False
  then have ok: "operator' \<noteq> JNull" "typeof operator' = ''object''" by auto
  show ?thesis
  proof (cases "\<exists>s. baseUrl' = JString s \<and> s \<noteq> [] \<and> prefix ''http'' s")
    case True
    then obtain s where s: "baseUrl' = JString s" "s \<noteq> []" "prefix ''http'' s" by blast
    show ?thesis
      unfolding s(1) using ok s(2,3) by (auto simp: new_Options_accepts [OF ok s(2,3)])
  next
    case False
    then show ?thesis by (simp add: new_Options_rejects_baseUrl [OF ok False])
  qed
qed

section \<open>The claims\<close>

text \<open>
  C1. Whenever the operator is a non-null value whose \<^verbatim>\<open>typeof\<close> is \<^verbatim>\<open>'object'\<close> and the
  base URL is a non-empty string starting with \<^verbatim>\<open>http\<close>, construction succeeds and the
  instance's environment, operator and baseUrl are exactly the three inputs.
\<close>

theorem construct_valid_stores_inputs:
  assumes "operator' \<noteq> JNull" and "typeof operator' = ''object''"
    and "s \<noteq> []" and "prefix ''http'' s"
  shows "\<exists>inst. new_Options environment' operator' (JString s) = Inr inst \<and>
           environment inst = environment' \<and> operator inst = operator' \<and>
           baseUrl inst = JString s"
  unfolding new_Options_accepts [OF assms] by simp

text \<open>The documentation's own example: scenario 1 of the specification.\<close>

theorem construct_valid_stores_inputs_witness:
  "\<exists>inst. new_Options TESTNET example_operator (JString ''https://api.example.com'') = Inr inst \<and>
     environment inst = TESTNET \<and> operator inst = example_operator \<and>
     baseUrl inst = JString ''https://api.example.com''"
  using construct_valid_stores_inputs [of example_operator "''https://api.example.com''" TESTNET]
  by (simp add: example_operator_def)

text \<open>
  C2. An operator that is \<^verbatim>\<open>null\<close>, \<^verbatim>\<open>undefined\<close> or whose \<^verbatim>\<open>typeof\<close> is not \<^verbatim>\<open>'object'\<close>
  makes construction fail with the InvalidOperator error, whatever the base URL is.
\<close>

theorem invalid_operator_rejected:
  assumes "operator' = JNull \<or> operator' = JUndefined \<or> typeof operator' \<noteq> ''object''"
  shows "new_Options environment' operator' baseUrl' = Inl InvalidOperator"
proof -
  from assms have "operator' = JNull \<or> typeof operator' \<noteq> ''object''" by auto
  then show ?thesis unfolding InvalidOperator_def by (rule new_Options_rejects_operator)
qed

text \<open>
  Null, undefined, a number, a string, a boolean and a function (whose \<^verbatim>\<open>typeof\<close> is
  \<^verbatim>\<open>'function'\<close>) as operator, with good and bad URLs.
\<close>

theorem invalid_operator_rejected_witness:
  "new_Options TESTNET JNull (JString ''https://api.example.com'') = Inl InvalidOperator \<and>
   new_Options TESTNET JUndefined (JString ''https://api.example.com'') = Inl InvalidOperator \<and>
   new_Options TESTNET (JNumber (Finite 42)) (JString ''ftp://x'') = Inl InvalidOperator \<and>
   new_Options TESTNET (JString ''0.0.123456'') JNull = Inl InvalidOperator \<and>
   new_Options TESTNET (JBoolean True) (JString ''https://api.example.com'') = Inl InvalidOperator \<and>
   new_Options TESTNET (JFunction ''f'') (JString ''https://api.example.com'') = Inl InvalidOperator"
  using invalid_operator_rejected [of JNull TESTNET "JString ''https://api.example.com''"]
    invalid_operator_rejected [of JUndefined TESTNET "JString ''https://api.example.com''"]
    invalid_operator_rejected [of "JNumber (Finite 42)" TESTNET "JString ''ftp://x''"]
    invalid_operator_rejected [of "JString ''0.0.123456''" TESTNET JNull]
    invalid_operator_rejected [of "JBoolean True" TESTNET "JString ''https://api.example.com''"]
    invalid_operator_rejected [of "JFunction ''f''" TESTNET "JString ''https://api.example.com''"]
  by simp

text \<open>
  C3. With a valid operator, a base URL that is \<^verbatim>\<open>null\<close>, \<^verbatim>\<open>undefined\<close>, the empty string,
  not a string, or a string that does not start with \<^verbatim>\<open>http\<close> makes construction fail
  with the InvalidBaseUrl error.
\<close>

theorem invalid_baseUrl_rejected:
  assumes "operator' \<noteq> JNull" and "typeof operator' = ''object''"
    and "baseUrl' = JNull \<or> baseUrl' = JUndefined \<or> baseUrl' = JString [] \<or>
         typeof baseUrl' \<noteq> ''string'' \<or> (\<exists>s. baseUrl' = JString s \<and> \<not> prefix ''http'' s)"
  shows "new_Options environment' operator' baseUrl' = Inl InvalidBaseUrl"
proof -
  from assms(3) have "\<not> (\<exists>s. baseUrl' = JString s \<and> s \<noteq> [] \<and> prefix ''http'' s)"
    by auto
  with assms(1,2) show ?thesis
    unfolding InvalidBaseUrl_def by (rule new_Options_rejects_baseUrl)
qed

text \<open>Scenarios 2 and 4 of the specification, and the other kinds of bad URL.\<close>

theorem invalid_baseUrl_rejected_witness:
  "new_Options TESTNET example_operator (JString '''') = Inl InvalidBaseUrl \<and>
   new_Options TESTNET (JObject [(''accountId'', JString ''0.0.1'')])
      (JString ''ftp://api.example.com'') = Inl InvalidBaseUrl \<and>
   new_Options TESTNET example_operator (JString ''example.com'') = Inl InvalidBaseUrl \<and>
   new_Options TESTNET example_operator JNull = Inl InvalidBaseUrl \<and>
   new_Options TESTNET example_operator JUndefined = Inl InvalidBaseUrl \<and>
   new_Options TESTNET example_operator (JNumber (Finite 80)) = Inl InvalidBaseUrl"
  using invalid_baseUrl_rejected [of example_operator "JString ''''" TESTNET]
    invalid_baseUrl_rejected [of "JObject [(''accountId'', JString ''0.0.1'')]"
      "JString ''ftp://api.example.com''" TESTNET]
    invalid_baseUrl_rejected [of example_operator "JString ''example.com''" TESTNET]
    invalid_baseUrl_rejected [of example_operator JNull TESTNET]
    invalid_baseUrl_rejected [of example_operator JUndefined TESTNET]
    invalid_baseUrl_rejected [of example_operator "JNumber (Finite 80)" TESTNET]
  by (simp add: example_operator_def)

text \<open>
  C4. The operator is checked before the base URL: when both are invalid the error is
  InvalidOperator and not InvalidBaseUrl, and the base URL is never looked at, that is,
  the constructor body ends in the same state and with the same exception whatever
  value is passed as base URL.
\<close>

theorem operator_checked_before_baseUrl:
  assumes "operator' = JNull \<or> operator' = JUndefined \<or> typeof operator' \<noteq> ''object''"
    and "baseUrl' = JNull \<or> baseUrl' = JUndefined \<or> baseUrl' = JString [] \<or>
         typeof baseUrl' \<noteq> ''string'' \<or> (\<exists>s. baseUrl' = JString s \<and> \<not> prefix ''http'' s)"
  shows "new_Options environment' operator' baseUrl' = Inl InvalidOperator \<and>
         new_Options environment' operator' baseUrl' \<noteq> Inl InvalidBaseUrl \<and>
         (\<forall>other. Options_constructor this environment' operator' other =
                   Options_constructor this environment' operator' baseUrl')"
proof -
  from assms(1) have bad: "operator' = JNull \<or> typeof operator' \<noteq> ''object''" by auto
  have "new_Options environment' operator' baseUrl' = Inl InvalidOperator"
    unfolding InvalidOperator_def using bad by (rule new_Options_rejects_operator)
  moreover from this have "new_Options environment' operator' baseUrl' \<noteq> Inl InvalidBaseUrl"
    by (simp add: error_conditions_distinct)
  moreover have "\<forall>other. Options_constructor this environment' operator' other =
                   Options_constructor this environment' operator' baseUrl'"
    by (simp add: Options_constructor_rejects_operator [OF bad])
  ultimately show ?thesis by blast
qed

text \<open>Operator and base URL both \<^verbatim>\<open>null\<close>.\<close>

theorem operator_checked_before_baseUrl_witness:
  "new_Options TESTNET JNull JNull = Inl InvalidOperator \<and>
   new_Options TESTNET JNull JNull \<noteq> Inl InvalidBaseUrl \<and>
   (\<forall>other. Options_constructor fresh_instance TESTNET JNull other =
             Options_constructor fresh_instance TESTNET JNull JNull)"
  using operator_checked_before_baseUrl
    [where operator' = JNull and baseUrl' = JNull and environment' = TESTNET
       and this = fresh_instance]
  by (simp add: error_conditions_distinct)

text \<open>
  The part of atomicity that holds: the caller receives either an exception and no
  instance, or an instance whose environment, operator and baseUrl are the three inputs,
  the last two having passed their checks. The partial assignments of a failed run stay
  on the discarded object.
\<close>

lemma construction_is_all_or_nothing:
  "(\<exists>e. new_Options environment' operator' baseUrl' = Inl e) \<or>
   (\<exists>inst. new_Options environment' operator' baseUrl' = Inr inst \<and>
      environment inst = environment' \<and> operator inst = operator' \<and>
      baseUrl inst = baseUrl' \<and> operator' \<noteq> JNull \<and> typeof operator' = ''object'' \<and>
      (\<exists>s. baseUrl' = JString s \<and> s \<noteq> [] \<and> prefix ''http'' s))"
proof (cases "new_Options environment' operator' baseUrl'")
  case (Inl e)
  then show ?thesis by blast
next
  case (Inr inst)
  then show ?thesis unfolding new_Options_success_iff by auto
qed

text \<open>
  C5. A successful construction does not yield a fully populated instance: on the
  documentation's own example the instance comes back with \<^verbatim>\<open>enabled\<close> undefined, so
  the four-field contract does not hold of it, whatever \<^verbatim>\<open>LedgerId\<close> and \<^verbatim>\<open>IOperator\<close>
  admit. The field's documentation announces \<^verbatim>\<open>@default true\<close>.
\<close>

theorem construct_leaves_enabled_unset:
  "new_Options TESTNET example_operator (JString ''https://api.example.com'') =
     Inr \<lparr>enabled = JUndefined, environment = TESTNET, operator = example_operator,
          baseUrl = JString ''https://api.example.com''\<rparr> \<and>
   \<not> conforms_IOptions is_LedgerId is_IOperator
       \<lparr>enabled = JUndefined, environment = TESTNET, operator = example_operator,
        baseUrl = JString ''https://api.example.com''\<rparr>"
  by (simp add: new_Options_accepts example_operator_def conforms_IOptions_def)

text \<open>
  C6. The environment is never validated: a successful construction stores it unchanged,
  and replacing it by any other value changes neither success nor the error, only the
  stored field. The constructor makes no check on \<^verbatim>\<open>enabled\<close>: run on an instance whose
  \<^verbatim>\<open>enabled\<close> holds any value, the body behaves the same and leaves that value in place.
\<close>

theorem environment_and_enabled_never_validated:
  "(\<forall>inst. new_Options environment' operator' baseUrl' = Inr inst \<longrightarrow>
       environment inst = environment') \<and>
   new_Options environment' operator' baseUrl' =
     map_sum id (\<lambda>inst. inst\<lparr>environment := environment'\<rparr>)
       (new_Options other_environment operator' baseUrl') \<and>
   Options_constructor (this\<lparr>enabled := e\<rparr>) environment' operator' baseUrl' =
     map_prod (\<lambda>inst. inst\<lparr>enabled := e\<rparr>) id
       (Options_constructor this environment' operator' baseUrl')"
proof (cases "operator' = JNull \<or> typeof operator' \<noteq> ''object''")
  case True
  show ?thesis
    by (simp add: new_Options_rejects_operator [OF True]
        Options_constructor_rejects_operator [OF True])
next
  case False
  then have ok: "operator' \<noteq> JNull" "typeof operator' = ''object''" by auto
  show ?thesis
  proof (cases "\<exists>s. baseUrl' = JString s \<and> s \<noteq> [] \<and> prefix ''http'' s")
    case True
    then obtain s where s: "baseUrl' = JString s" "s \<noteq> []" "prefix ''http'' s" by blast
    show ?thesis
      unfolding s(1)
      by (simp add: new_Options_accepts [OF ok s(2,3)] Options_constructor_accepts [OF ok s(2,3)])
  next
    case False
    show ?thesis
      by (simp add: new_Options_rejects_baseUrl [OF ok False]
          Options_constructor_rejects_baseUrl [OF ok False])
  qed
qed

text \<open>An arbitrary string as environment, and an instance whose \<^verbatim>\<open>enabled\<close> is a string.\<close>

theorem environment_and_enabled_never_validated_witness:
  "new_Options (JString ''not-a-network'') example_operator (JString ''https://api.example.com'') =
     Inr \<lparr>enabled = JUndefined, environment = JString ''not-a-network'',
          operator = example_operator, baseUrl = JString ''https://api.example.com''\<rparr> \<and>
   Options_constructor (fresh_instance\<lparr>enabled := JString ''yes''\<rparr>) (JString ''not-a-network'')
       example_operator (JString ''https://api.example.com'') =
     (\<lparr>enabled = JString ''yes'', environment = JString ''not-a-network'',
       operator = example_operator,
       baseUrl = JString ''https://api.example.com''\<rparr>, None)"
  using environment_and_enabled_never_validated
    [where environment' = "JString ''not-a-network''" and operator' = example_operator
       and baseUrl' = "JString ''https://api.example.com''" and other_environment = TESTNET
       and this = fresh_instance and e = "JString ''yes''"]
  by (simp add: new_Options_accepts Options_constructor_accepts example_operator_def
      fresh_instance_def)

text \<open>
  C7. Operator validation is shallow: a non-null value whose \<^verbatim>\<open>typeof\<close> is \<^verbatim>\<open>'object'\<close>
  never fails with InvalidOperator and is stored as it is; a plain object passes with
  any properties or none, so \<^verbatim>\<open>construct(TESTNET, {}, "http://x")\<close> succeeds.
\<close>

theorem operator_validation_is_shallow:
  assumes "operator' \<noteq> JNull" and "typeof operator' = ''object''"
  shows "new_Options environment' operator' baseUrl' \<noteq> Inl InvalidOperator \<and>
         (\<forall>inst. new_Options environment' operator' baseUrl' = Inr inst \<longrightarrow>
            operator inst = operator') \<and>
         new_Options environment' (JObject ps) (JString ''http://x'') =
           Inr \<lparr>enabled = JUndefined, environment = environment', operator = JObject ps,
                baseUrl = JString ''http://x''\<rparr>"
proof -
  have "new_Options environment' operator' baseUrl' \<noteq> Inl InvalidOperator"
  proof (cases "\<exists>s. baseUrl' = JString s \<and> s \<noteq> [] \<and> prefix ''http'' s")
    case True
    then obtain s where s: "baseUrl' = JString s" "s \<noteq> []" "prefix ''http'' s" by blast
    show ?thesis unfolding s(1) by (simp add: new_Options_accepts [OF assms s(2,3)])
  next
    case False
    show ?thesis
      using error_conditions_distinct
      by (simp add: new_Options_rejects_baseUrl [OF assms False] InvalidOperator_def
          InvalidBaseUrl_def)
  qed
  moreover have "\<forall>inst. new_Options environment' operator' baseUrl' = Inr inst \<longrightarrow>
            operator inst = operator'"
    by (simp add: new_Options_success_iff)
  moreover have "new_Options environment' (JObject ps) (JString ''http://x'') =
           Inr \<lparr>enabled = JUndefined, environment = environment', operator = JObject ps,
                baseUrl = JString ''http://x''\<rparr>"
    by (simp add: new_Options_accepts)
  ultimately show ?thesis by blast
qed

text \<open>Scenario 5 of the specification: the empty object.\<close>

theorem operator_validation_is_shallow_witness:
  "new_Options TESTNET (JObject []) (JString ''ftp://x'') \<noteq> Inl InvalidOperator \<and>
   new_Options TESTNET (JObject []) (JString ''http://x'') =
     Inr \<lparr>enabled = JUndefined, environment = TESTNET, operator = JObject [],
          baseUrl = JString ''http://x''\<rparr>"
  using operator_validation_is_shallow
    [where operator' = "JObject []" and environment' = TESTNET
       and baseUrl' = "JString ''ftp://x''" and ps = "[]"]
  by simp

text \<open>
  C8. After every successful construction \<^verbatim>\<open>enabled\<close> is undefined, so the instance does
  not satisfy the four-field contract; once the caller assigns a boolean to \<^verbatim>\<open>enabled\<close>
  it does, provided the environment and the operator belong to their external types.
\<close>

theorem enabled_undefined_after_construction:
  assumes "new_Options environment' operator' baseUrl' = Inr inst"
  shows "enabled inst = JUndefined \<and>
         \<not> conforms_IOptions is_LedgerId is_IOperator inst \<and>
         conforms_IOptions is_LedgerId is_IOperator (inst\<lparr>enabled := JBoolean b\<rparr>) =
           (is_LedgerId environment' \<and> is_IOperator operator')"
  using assms unfolding new_Options_success_iff conforms_IOptions_def by auto

text \<open>The documentation's example, before and after \<^verbatim>\<open>enabled = true\<close>.\<close>

theorem enabled_undefined_after_construction_witness:
  "new_Options TESTNET example_operator (JString ''https://api.example.com'') =
     Inr \<lparr>enabled = JUndefined, environment = TESTNET, operator = example_operator,
          baseUrl = JString ''https://api.example.com''\<rparr> \<and>
   \<not> conforms_IOptions (\<lambda>v. v = TESTNET) (\<lambda>v. v = example_operator)
       \<lparr>enabled = JUndefined, environment = TESTNET, operator = example_operator,
        baseUrl = JString ''https://api.example.com''\<rparr> \<and>
   conforms_IOptions (\<lambda>v. v = TESTNET) (\<lambda>v. v = example_operator)
       \<lparr>enabled = JBoolean True, environment = TESTNET, operator = example_operator,
        baseUrl = JString ''https://api.example.com''\<rparr>"
proof -
  have built: "new_Options TESTNET example_operator (JString ''https://api.example.com'') =
     Inr \<lparr>enabled = JUndefined, environment = TESTNET, operator = example_operator,
          baseUrl = JString ''https://api.example.com''\<rparr>"
    by (simp add: new_Options_accepts example_operator_def)
  from enabled_undefined_after_construction
    [OF built, where is_LedgerId = "\<lambda>v. v = TESTNET"
       and is_IOperator = "\<lambda>v. v = example_operator" and b = True]
  show ?thesis using built by simp
qed

text \<open>
  C9. An array is truthy and its \<^verbatim>\<open>typeof\<close> is \<^verbatim>\<open>'object'\<close>: with a valid base URL,
  construction succeeds and stores the array as the operator.
\<close>

theorem array_operator_accepted:
  assumes "s \<noteq> []" and "prefix ''http'' s"
  shows "new_Options environment' (JArray xs) (JString s) =
           Inr \<lparr>enabled = JUndefined, environment = environment', operator = JArray xs,
                baseUrl = JString s\<rparr>"
  using assms by (simp add: new_Options_accepts)

text \<open>The empty array \<^verbatim>\<open>[]\<close>.\<close>

theorem array_operator_accepted_witness:
  "new_Options TESTNET (JArray []) (JString ''https://api.example.com'') =
     Inr \<lparr>enabled = JUndefined, environment = TESTNET, operator = JArray [],
          baseUrl = JString ''https://api.example.com''\<rparr>"
  using array_operator_accepted [of "''https://api.example.com''" TESTNET "[]"]
  by simp

text \<open>
  C10. An invalid operator always fails with an \<^verbatim>\<open>Error\<close> whose message is
  \<^verbatim>\<open>Invalid operator information\<close>, a valid operator with an invalid base URL always
  with an \<^verbatim>\<open>Error\<close> whose message is \<^verbatim>\<open>Invalid base URL\<close>, and the constructor fails in
  no other way (in particular the call of \<^verbatim>\<open>startsWith\<close> never raises).
\<close>

theorem failures_carry_fixed_messages:
  "(operator' = JNull \<or> typeof operator' \<noteq> ''object'' \<longrightarrow>
      new_Options environment' operator' baseUrl' = Inl (Error ''Invalid operator information'')) \<and>
   (operator' \<noteq> JNull \<and> typeof operator' = ''object'' \<and>
    \<not> (\<exists>s. baseUrl' = JString s \<and> s \<noteq> [] \<and> prefix ''http'' s) \<longrightarrow>
      new_Options environment' operator' baseUrl' = Inl (Error ''Invalid base URL'')) \<and>
   (\<forall>e. new_Options environment' operator' baseUrl' = Inl e \<longrightarrow>
      e = Error ''Invalid operator information'' \<or> e = Error ''Invalid base URL'')"
proof (cases "operator' = JNull \<or> typeof operator' \<noteq> ''object''")
  case True
  then show ?thesis by (auto simp: new_Options_rejects_operator [OF True])
next
  case False
  then have ok: "operator' \<noteq> JNull" "typeof operator' = ''object''" by auto
  show ?thesis
  proof (cases "\<exists>s. baseUrl' = JString s \<and> s \<noteq> [] \<and> prefix ''http'' s")
    case True
    then obtain s where s: "baseUrl' = JString s" "s \<noteq> []" "prefix ''http'' s" by blast
    show ?thesis
      unfolding s(1) using ok s(2,3) by (simp add: new_Options_accepts [OF ok s(2,3)])
  next
    case False
    then show ?thesis using ok by (simp add: new_Options_rejects_baseUrl [OF ok False])
  qed
qed

text \<open>One failure of each kind.\<close>

theorem failures_carry_fixed_messages_witness:
  "new_Options TESTNET JNull (JString ''https://api.example.com'') =
     Inl (Error ''Invalid operator information'') \<and>
   new_Options TESTNET example_operator (JString ''ftp://api.example.com'') =
     Inl (Error ''Invalid base URL'')"
  using failures_carry_fixed_messages
      [where operator' = JNull and environment' = TESTNET
         and baseUrl' = "JString ''https://api.example.com''"]
    failures_carry_fixed_messages
      [where operator' = example_operator and environment' = TESTNET
         and baseUrl' = "JString ''ftp://api.example.com''"]
  by (simp add: example_operator_def)

end
